theory Spec2Isabelle
  imports Main
begin

section \<open>Share links: the data model of \<^verbatim>\<open>api/src/services/shares.ts\<close>\<close>

text \<open>
  The service talks to two tables through knex. A table is the list of its rows, in the
  order the database returns them. Timestamps are milliseconds since the epoch and the
  counters of a row are the integers the database stores, both modelled as \<open>int\<close>.
  A nullable column is an \<open>option\<close>.
\<close>

type_synonym timestamp = int

text \<open>A row of \<^verbatim>\<open>directus_shares\<close>; the fields are the columns the query reads.\<close>

record shares_row =
  shares_id :: string
  shares_role :: "string option"
  shares_item :: string
  shares_collection :: string
  shares_date_start :: "timestamp option"
  shares_date_end :: "timestamp option"
  shares_times_used :: int
  shares_max_uses :: "int option"
  shares_password :: "string option"

text \<open>A row of \<^verbatim>\<open>directus_sessions\<close>, with the columns the insert of \<open>login\<close> writes.\<close>

record sessions_row =
  sessions_token :: string
  sessions_expires :: timestamp
  sessions_ip :: "string option"
  sessions_user_agent :: "string option"
  sessions_share :: "string option"

record database =
  directus_shares :: "shares_row list"
  directus_sessions :: "sessions_row list"

text \<open>\<^verbatim>\<open>ShareData\<close>: the aliases of the select of \<open>login\<close> (lines 43 to 53).\<close>

record ShareData =
  share_id :: string
  share_role :: "string option"
  share_item :: string
  share_collection :: string
  share_start :: "timestamp option"
  share_end :: "timestamp option"
  share_times_used :: int
  share_max_uses :: "int option"
  share_password :: "string option"

record share_scope_t =
  item :: string
  collection :: string

record DirectusTokenPayload =
  app_access :: bool
  admin_access :: bool
  role :: "string option"
  share :: string
  share_scope :: share_scope_t

record sign_options =
  expiresIn :: string
  issuer :: string

record LoginResult =
  accessToken :: string
  refreshToken :: string
  expires :: int

text \<open>The argument of \<open>login\<close>: \<^verbatim>\<open>payload.share\<close> and the optional \<^verbatim>\<open>payload.password\<close>.\<close>

record login_payload =
  payload_share :: string
  payload_password :: "string option"

text \<open>\<^verbatim>\<open>this.accountability\<close>: who is calling, and from where.\<close>

record Accountability =
  user :: "string option"
  ip :: "string option"
  userAgent :: "string option"

text \<open>The four statements \<open>login\<close> sends to the database, in the order of the source.\<close>

datatype statement = SelectShare | UpdateShare | InsertSession | DeleteSessions

text \<open>
  What a call can throw: the two exceptions the file raises itself, a statement the
  database rejects, and an exception raised inside a library or a collaborating service.
\<close>

datatype exception =
  InvalidCredentialsException
  | ForbiddenException
  | DatabaseError statement
  | LibraryError string

text \<open>
  Everything \<open>login\<close> reads that is not its argument or a table: the caller's
  accountability, the three clock readings (the database's \<^verbatim>\<open>knex.fn.now()\<close> inside the
  select, \<^verbatim>\<open>Date.now()\<close> on line 96, \<^verbatim>\<open>new Date()\<close> on line 106), the three entries of
  \<^verbatim>\<open>env\<close>, and the libraries \<^verbatim>\<open>ms\<close>, \<^verbatim>\<open>argon2\<close>, \<^verbatim>\<open>jsonwebtoken\<close> and \<^verbatim>\<open>nanoid\<close>, which are
  not part of the file and are taken as parameters. \<open>argon2_verify\<close> and \<open>jwt_sign\<close> may
  throw; \<open>argon2_verify\<close> receives \<^verbatim>\<open>payload.password\<close> as it is, \<open>None\<close> when the caller
  sent none. \<open>ms\<close> is applied to the two configured durations only, which are taken to be
  well-formed. \<open>knex_fails\<close> tells which statements the database rejects; a rejected
  statement changes nothing and throws.

  The two date comparisons of the query are made inside the database, between the stored
  column and \<^verbatim>\<open>CURRENT_TIMESTAMP\<close> (which is what \<^verbatim>\<open>knex.fn.now()\<close> is), not in JavaScript.
  What the database answers depends on the database and is a parameter: \<open>sql_gte_now ctx d now\<close>
  is its answer to \<^verbatim>\<open>date_end >= CURRENT_TIMESTAMP\<close> for a stored date \<open>d\<close> when its clock
  stands at \<open>now\<close>, and \<open>sql_lte_now ctx d now\<close> its answer to
  \<^verbatim>\<open>date_start <= CURRENT_TIMESTAMP\<close>.
\<close>

record login_context =
  accountability :: "Accountability option"
  knex_now :: timestamp
  sql_gte_now :: "timestamp \<Rightarrow> timestamp \<Rightarrow> bool"
  sql_lte_now :: "timestamp \<Rightarrow> timestamp \<Rightarrow> bool"
  Date_now :: timestamp
  new_Date :: timestamp
  SECRET :: string
  ACCESS_TOKEN_TTL :: string
  REFRESH_TOKEN_TTL :: string
  ms :: "string \<Rightarrow> int"
  argon2_verify :: "string \<Rightarrow> string option \<Rightarrow> exception + bool"
  jwt_sign :: "DirectusTokenPayload \<Rightarrow> string \<Rightarrow> sign_options \<Rightarrow> exception + string"
  nanoid :: "nat \<Rightarrow> string"
  knex_fails :: "statement \<Rightarrow> bool"

section \<open>JavaScript numbers\<close>

text \<open>
  \<^verbatim>\<open>record.share_times_used\<close> is a JavaScript number, a double. Every integer from \<open>-2^53\<close>
  to \<open>2^53\<close> is a double; beyond, the doubles are \<open>ulp\<close> apart, 2 up to \<open>2^54\<close>, 4 up to
  \<open>2^55\<close> and so on. \<open>js_number n\<close> is the double nearest to the integer \<open>n\<close>, the one with
  the even significand when two are equally near: what the driver hands over for a stored
  integer, and what an addition yields for an exact sum. An integer column holds at most
  64 bits, far below where a double overflows, so infinity is not modelled.
\<close>

function ulp :: "int \<Rightarrow> int" where
  "ulp a = (if a < 2 ^ 53 then 1 else 2 * ulp (a div 2))"
  by pat_completeness auto
termination
  by (relation "measure nat") auto

declare ulp.simps [simp del]

definition js_number :: "int \<Rightarrow> int" where
  "js_number n =
     (if - (2 ^ 53) \<le> n \<and> n \<le> 2 ^ 53 then n
      else
        let a = \<bar>n\<bar>; u = ulp a; q = a div u; r = a mod u
        in sgn n * (u * (if 2 * r < u then q
                         else if u < 2 * r then q + 1
                         else if even q then q else q + 1)))"

text \<open>\<^verbatim>\<open>a + b\<close> on two numbers holding integers: the exact sum, rounded.\<close>

definition js_plus :: "int \<Rightarrow> int \<Rightarrow> int" where
  "js_plus a b = js_number (a + b)"

section \<open>login\<close>

subsection \<open>The select (lines 42 to 65)\<close>

text \<open>
  The \<^verbatim>\<open>where\<close> clause: the id is the requested one, and each of the three bracketed
  sub-queries holds: the column is null, or the database finds \<^verbatim>\<open>date_end >= CURRENT_TIMESTAMP\<close>,
  \<^verbatim>\<open>date_start <= CURRENT_TIMESTAMP\<close>, and \<open>max_uses >= times_used\<close> between the two integer
  columns of the row.
\<close>

definition date_end_ok :: "login_context \<Rightarrow> shares_row \<Rightarrow> bool" where
  "date_end_ok ctx r =
     (case shares_date_end r of None \<Rightarrow> True | Some e \<Rightarrow> sql_gte_now ctx e (knex_now ctx))"

definition date_start_ok :: "login_context \<Rightarrow> shares_row \<Rightarrow> bool" where
  "date_start_ok ctx r =
     (case shares_date_start r of None \<Rightarrow> True | Some s \<Rightarrow> sql_lte_now ctx s (knex_now ctx))"

definition max_uses_ok :: "shares_row \<Rightarrow> bool" where
  "max_uses_ok r = (case shares_max_uses r of None \<Rightarrow> True | Some m \<Rightarrow> m \<ge> shares_times_used r)"

definition where_clause :: "login_context \<Rightarrow> string \<Rightarrow> shares_row \<Rightarrow> bool" where
  "where_clause ctx sid r =
     (shares_id r = sid \<and> date_end_ok ctx r \<and> date_start_ok ctx r \<and> max_uses_ok r)"

text \<open>The column aliases of the select; the two integer columns arrive as numbers.\<close>

definition select_columns :: "shares_row \<Rightarrow> ShareData" where
  "select_columns r =
     \<lparr> share_id = shares_id r,
       share_role = shares_role r,
       share_item = shares_item r,
       share_collection = shares_collection r,
       share_start = shares_date_start r,
       share_end = shares_date_end r,
       share_times_used = js_number (shares_times_used r),
       share_max_uses = map_option js_number (shares_max_uses r),
       share_password = shares_password r \<rparr>"

text \<open>\<^verbatim>\<open>.first()\<close>: the first row that satisfies the clause, or nothing.\<close>

definition select_record :: "login_context \<Rightarrow> database \<Rightarrow> string \<Rightarrow> exception + ShareData option" where
  "select_record ctx db sid =
     (if knex_fails ctx SelectShare then Inl (DatabaseError SelectShare)
      else Inr (map_option select_columns
                  (find (where_clause ctx sid) (directus_shares db))))"

subsection \<open>Verification (lines 42 to 73)\<close>

text \<open>
  The first half of \<open>login\<close>, up to the second \<^verbatim>\<open>throw\<close>. No record: invalid
  credentials. \<^verbatim>\<open>record.share_password && ...\<close> is JavaScript truthiness: a null and an
  empty stored password both skip the hash comparison. Otherwise \<^verbatim>\<open>argon2.verify\<close> gets
  the stored hash and whatever \<^verbatim>\<open>payload.password\<close> is, absent included; it answers, or
  throws.
\<close>

definition verify :: "login_context \<Rightarrow> database \<Rightarrow> login_payload \<Rightarrow> exception + ShareData" where
  "verify ctx db payload =
     (case select_record ctx db (payload_share payload) of
        Inl e \<Rightarrow> Inl e
      | Inr None \<Rightarrow> Inl InvalidCredentialsException
      | Inr (Some record) \<Rightarrow>
          (case share_password record of
             None \<Rightarrow> Inr record
           | Some hash \<Rightarrow>
               if hash = [] then Inr record
               else (case argon2_verify ctx hash (payload_password payload) of
                       Inl e \<Rightarrow> Inl e
                     | Inr matches \<Rightarrow>
                         if matches then Inr record else Inl InvalidCredentialsException)))"

subsection \<open>The writes (lines 75 to 106)\<close>

text \<open>
  Lines 75 to 77: every row with the record's id gets \<^verbatim>\<open>record.share_times_used + 1\<close>, an
  addition of JavaScript numbers.
\<close>

definition update_times_used :: "ShareData \<Rightarrow> shares_row list \<Rightarrow> shares_row list" where
  "update_times_used record rows =
     map (\<lambda>r. if shares_id r = share_id record
               then r\<lparr>shares_times_used := js_plus (share_times_used record) 1\<rparr> else r) rows"

text \<open>Lines 79 to 88.\<close>

definition tokenPayload :: "ShareData \<Rightarrow> DirectusTokenPayload" where
  "tokenPayload record =
     \<lparr> app_access = False,
       admin_access = False,
       role = share_role record,
       share = share_id record,
       share_scope = \<lparr> item = share_item record, collection = share_collection record \<rparr> \<rparr>"

text \<open>
  Lines 95 and 96. \<^verbatim>\<open>Date.now()\<close> and a configured duration are integers of milliseconds
  far inside the range where the sum of two numbers is exact and a valid \<^verbatim>\<open>Date\<close>.
\<close>

definition refreshTokenExpiration :: "login_context \<Rightarrow> timestamp" where
  "refreshTokenExpiration ctx = Date_now ctx + ms ctx (REFRESH_TOKEN_TTL ctx)"

text \<open>The row of lines 98 to 104; \<^verbatim>\<open>this.accountability?.ip\<close> is absent without accountability.\<close>

definition new_session :: "login_context \<Rightarrow> ShareData \<Rightarrow> sessions_row" where
  "new_session ctx record =
     \<lparr> sessions_token = nanoid ctx 64,
       sessions_expires = refreshTokenExpiration ctx,
       sessions_ip = (case accountability ctx of None \<Rightarrow> None | Some a \<Rightarrow> ip a),
       sessions_user_agent = (case accountability ctx of None \<Rightarrow> None | Some a \<Rightarrow> userAgent a),
       sessions_share = Some (share_id record) \<rparr>"

text \<open>Line 106: delete the rows with \<open>expires < now\<close>; the others stay, in order.\<close>

definition delete_expired :: "timestamp \<Rightarrow> sessions_row list \<Rightarrow> sessions_row list" where
  "delete_expired now rows = filter (\<lambda>s. \<not> sessions_expires s < now) rows"

subsection \<open>The whole function (lines 41 to 113)\<close>

text \<open>
  The result is what the caller gets (the exception or the tokens) and the database as
  the call leaves it: no statement runs in a transaction, so an exception keeps the writes
  made before it.
\<close>

definition login :: "login_context \<Rightarrow> database \<Rightarrow> login_payload \<Rightarrow> (exception + LoginResult) \<times> database" where
  "login ctx db payload =
     (case verify ctx db payload of
        Inl e \<Rightarrow> (Inl e, db)
      | Inr record \<Rightarrow>
          if knex_fails ctx UpdateShare then (Inl (DatabaseError UpdateShare), db)
          else
            let db1 = db\<lparr>directus_shares := update_times_used record (directus_shares db)\<rparr> in
            (case jwt_sign ctx (tokenPayload record) (SECRET ctx)
                    \<lparr> expiresIn = ACCESS_TOKEN_TTL ctx, issuer = ''directus'' \<rparr> of
               Inl e \<Rightarrow> (Inl e, db1)
             | Inr access \<Rightarrow>
                 if knex_fails ctx InsertSession then (Inl (DatabaseError InsertSession), db1)
                 else
                   let db2 = db1\<lparr>directus_sessions :=
                                   directus_sessions db1 @ [new_session ctx record]\<rparr> in
                   if knex_fails ctx DeleteSessions then (Inl (DatabaseError DeleteSessions), db2)
                   else
                     let db3 = db2\<lparr>directus_sessions :=
                                     delete_expired (new_Date ctx) (directus_sessions db2)\<rparr> in
                     (Inr \<lparr> accessToken = access,
                            refreshToken = nanoid ctx 64,
                            expires = ms ctx (ACCESS_TOKEN_TTL ctx) \<rparr>, db3)))"

section \<open>invite\<close>

text \<open>
  \<open>invite\<close> reads the share and the inviting user through other services and sends one
  mail per address. Those services (\<^verbatim>\<open>ItemsService.readOne\<close>, \<^verbatim>\<open>UsersService.readOne\<close>,
  \<^verbatim>\<open>MailService.send\<close>) and the helpers \<^verbatim>\<open>userName\<close> and \<^verbatim>\<open>md\<close> are outside the file and
  are parameters; the reads and the send may throw. The mails sent so far are the state.
\<close>

record mail =
  template_name :: string
  template_html :: string
  mail_to :: string
  subject :: string

record invite_payload =
  emails :: "string list"
  invite_share :: string

record 'u invite_context =
  invite_accountability :: "Accountability option"
  PUBLIC_URL :: string
  readOne :: "string \<Rightarrow> exception + string"
  users_readOne :: "string \<Rightarrow> exception + 'u"
  userName :: "'u \<Rightarrow> string"
  md :: "string \<Rightarrow> string"
  send_fails :: "mail \<Rightarrow> bool"

text \<open>
  \<^verbatim>\<open>this.accountability?.user\<close>: absent without accountability or without a user; the
  test on line 120 is truthiness, so an empty user id counts as absent too.
\<close>

definition accountability_user :: "Accountability option \<Rightarrow> string option" where
  "accountability_user acc =
     (case acc of
        None \<Rightarrow> None
      | Some a \<Rightarrow> (case user a of None \<Rightarrow> None | Some u \<Rightarrow> if u = [] then None else Some u))"

text \<open>The template literal of lines 135 to 141.\<close>

definition message :: "string \<Rightarrow> string \<Rightarrow> string \<Rightarrow> string \<Rightarrow> string" where
  "message inviter coll url sid =
     [CHR 0x0A] @ ''Hello!'' @ [CHR 0x0A, CHR 0x0A] @ inviter
       @ '' has invited you to view an item in '' @ coll @ ''.'' @ [CHR 0x0A, CHR 0x0A]
       @ ''[Open]('' @ url @ ''/admin/shared/'' @ sid @ '')'' @ [CHR 0x0A]"

text \<open>The loop of lines 143 to 154: a send that throws ends the loop, keeping the mails sent.\<close>

fun send_each :: "(mail \<Rightarrow> bool) \<Rightarrow> (string \<Rightarrow> mail) \<Rightarrow> string list \<Rightarrow> mail list
    \<Rightarrow> (exception + unit) \<times> mail list" where
  "send_each fails mk [] sent = (Inr (), sent)"
| "send_each fails mk (email # rest) sent =
     (if fails (mk email) then (Inl (LibraryError ''mail''), sent)
      else send_each fails mk rest (sent @ [mk email]))"

definition invite :: "'u invite_context \<Rightarrow> mail list \<Rightarrow> invite_payload
    \<Rightarrow> (exception + unit) \<times> mail list" where
  "invite ctx sent payload =
     (case accountability_user (invite_accountability ctx) of
        None \<Rightarrow> (Inl ForbiddenException, sent)
      | Some uid \<Rightarrow>
          (case readOne ctx (invite_share payload) of
             Inl e \<Rightarrow> (Inl e, sent)
           | Inr coll \<Rightarrow>
               (case users_readOne ctx uid of
                  Inl e \<Rightarrow> (Inl e, sent)
                | Inr userInfo \<Rightarrow>
                    send_each (send_fails ctx)
                      (\<lambda>email.
                         \<lparr> template_name = ''base'',
                           template_html =
                             md ctx (message (userName ctx userInfo) coll (PUBLIC_URL ctx)
                                       (invite_share payload)),
                           mail_to = email,
                           subject = userName ctx userInfo @ '' has shared an item with you'' \<rparr>)
                      (emails payload) sent)))"

section \<open>Example data\<close>

text \<open>
  A small installation on which the theorems below are instantiated. Its database compares
  dates chronologically. The stand-in for \<^verbatim>\<open>argon2\<close> takes the hash of a password to be the
  password behind a dollar sign and, as the library does when it is handed no password,
  throws a \<^verbatim>\<open>TypeError\<close> for an absent one; the stand-ins for \<^verbatim>\<open>jsonwebtoken\<close> and
  \<^verbatim>\<open>nanoid\<close> return fixed strings. \<open>later_context\<close> is a second call one second later,
  \<open>failing_context\<close> a call during which the database rejects the insert into
  \<^verbatim>\<open>directus_sessions\<close>. Share \<open>s1\<close> allows one use and has no password, \<open>s2\<close> has an empty
  stored password, \<open>s3\<close> has a password and is valid from 900 to 1500.
\<close>

definition example_context :: login_context where
  "example_context =
     \<lparr> accountability = Some \<lparr> user = None, ip = Some ''203.0.113.7'', userAgent = Some ''curl/8'' \<rparr>,
       knex_now = 1000,
       sql_gte_now = (\<lambda>d now. d \<ge> now),
       sql_lte_now = (\<lambda>d now. d \<le> now),
       Date_now = 1001, new_Date = 1002,
       SECRET = ''secret'', ACCESS_TOKEN_TTL = ''15m'', REFRESH_TOKEN_TTL = ''7d'',
       ms = (\<lambda>s. if s = ''15m'' then 900000 else 604800000),
       argon2_verify =
         (\<lambda>hash plain. case plain of
                          None \<Rightarrow> Inl (LibraryError ''TypeError'')
                        | Some p \<Rightarrow> Inr (hash = CHR ''$'' # p)),
       jwt_sign = (\<lambda>p secret opts. Inr (''jwt:'' @ share p)),
       nanoid = (\<lambda>n. replicate n (CHR ''r'')),
       knex_fails = (\<lambda>_. False) \<rparr>"

definition later_context :: login_context where
  "later_context =
     example_context \<lparr> knex_now := 2000, Date_now := 2001, new_Date := 2002,
                       nanoid := (\<lambda>n. replicate n (CHR ''q'')) \<rparr>"

definition failing_context :: login_context where
  "failing_context = example_context \<lparr> knex_fails := (\<lambda>s. s = InsertSession) \<rparr>"

definition share_s1 :: shares_row where
  "share_s1 =
     \<lparr> shares_id = ''s1'', shares_role = None, shares_item = ''42'',
       shares_collection = ''articles'', shares_date_start = None, shares_date_end = None,
       shares_times_used = 0, shares_max_uses = Some 1, shares_password = None \<rparr>"

definition share_s2 :: shares_row where
  "share_s2 =
     \<lparr> shares_id = ''s2'', shares_role = Some ''viewer'', shares_item = ''7'',
       shares_collection = ''pages'', shares_date_start = None, shares_date_end = None,
       shares_times_used = 0, shares_max_uses = None, shares_password = Some [] \<rparr>"

definition share_s3 :: shares_row where
  "share_s3 =
     \<lparr> shares_id = ''s3'', shares_role = Some ''viewer'', shares_item = ''9'',
       shares_collection = ''pages'', shares_date_start = Some 900, shares_date_end = Some 1500,
       shares_times_used = 7, shares_max_uses = None, shares_password = Some ''$letmein'' \<rparr>"

definition session_old :: sessions_row where
  "session_old = \<lparr> sessions_token = ''old'', sessions_expires = 500, sessions_ip = None,
       sessions_user_agent = None, sessions_share = None \<rparr>"

definition session_live :: sessions_row where
  "session_live = \<lparr> sessions_token = ''live'', sessions_expires = 5000, sessions_ip = None,
       sessions_user_agent = None, sessions_share = Some ''s3'' \<rparr>"

definition example_db :: database where
  "example_db =
     \<lparr> directus_shares = [share_s1, share_s2, share_s3],
       directus_sessions = [session_old, session_live] \<rparr>"

text \<open>
  The same installation on SQLite. There a date column holds the integer of milliseconds
  that knex binds for a \<^verbatim>\<open>Date\<close>, while \<^verbatim>\<open>CURRENT_TIMESTAMP\<close> is a text, and SQLite orders
  every integer before every text: \<^verbatim>\<open>date_end >= CURRENT_TIMESTAMP\<close> is false and
  \<^verbatim>\<open>date_start <= CURRENT_TIMESTAMP\<close> is true whatever the two instants are. Share \<open>s4\<close>
  starts at 5000 and share \<open>s5\<close> ends at 5000, both after the clock's 1000; neither has a
  password.
\<close>

definition sqlite_context :: login_context where
  "sqlite_context =
     example_context \<lparr> sql_gte_now := (\<lambda>d now. False), sql_lte_now := (\<lambda>d now. True) \<rparr>"

definition share_s4 :: shares_row where
  "share_s4 =
     \<lparr> shares_id = ''s4'', shares_role = None, shares_item = ''1'',
       shares_collection = ''articles'', shares_date_start = Some 5000, shares_date_end = None,
       shares_times_used = 0, shares_max_uses = None, shares_password = None \<rparr>"

definition share_s5 :: shares_row where
  "share_s5 =
     \<lparr> shares_id = ''s5'', shares_role = None, shares_item = ''2'',
       shares_collection = ''articles'', shares_date_start = None, shares_date_end = Some 5000,
       shares_times_used = 0, shares_max_uses = None, shares_password = None \<rparr>"

definition sqlite_db :: database where
  "sqlite_db = \<lparr> directus_shares = [share_s4, share_s5], directus_sessions = [] \<rparr>"

text \<open>A share whose counter has reached \<open>2^53\<close>.\<close>

definition share_s6 :: shares_row where
  "share_s6 =
     \<lparr> shares_id = ''s6'', shares_role = None, shares_item = ''3'',
       shares_collection = ''articles'', shares_date_start = None, shares_date_end = None,
       shares_times_used = 9007199254740992, shares_max_uses = None, shares_password = None \<rparr>"

definition worn_db :: database where
  "worn_db = \<lparr> directus_shares = [share_s6], directus_sessions = [] \<rparr>"

definition example_invite_context :: "string invite_context" where
  "example_invite_context =
     \<lparr> invite_accountability = Some \<lparr> user = None, ip = Some ''203.0.113.7'', userAgent = None \<rparr>,
       PUBLIC_URL = ''https://example.org'',
       readOne = (\<lambda>sid. Inr ''articles''),
       users_readOne = (\<lambda>uid. Inr uid),
       userName = (\<lambda>u. u),
       md = (\<lambda>m. m),
       send_fails = (\<lambda>_. False) \<rparr>"

section \<open>Properties of login\<close>

subsection \<open>Auxiliary facts\<close>

lemmas login_defs = login_def verify_def select_record_def where_clause_def date_end_ok_def
  date_start_ok_def max_uses_ok_def select_columns_def update_times_used_def tokenPayload_def
  new_session_def refreshTokenExpiration_def delete_expired_def js_plus_def js_number_def

lemmas example_defs = example_context_def later_context_def failing_context_def share_s1_def
  share_s2_def share_s3_def session_old_def session_live_def example_db_def
  sqlite_context_def share_s4_def share_s5_def sqlite_db_def share_s6_def worn_db_def

lemma js_number_safe: "- (2 ^ 53) \<le> n \<Longrightarrow> n \<le> 2 ^ 53 \<Longrightarrow> js_number n = n"
  by (simp add: js_number_def)

lemma js_plus_one_safe:
  assumes "- (2 ^ 53) \<le> n" and "n < 2 ^ 53"
  shows "js_plus (js_number n) 1 = n + 1"
proof -
  from assms have "js_number n = n" by (simp add: js_number_safe)
  moreover from assms have "js_number (n + 1) = n + 1" by (simp add: js_number_safe)
  ultimately show ?thesis by (simp add: js_plus_def)
qed

lemma ulp_above_2_53: "ulp 9007199254740993 = 2"
  by (simp add: ulp.simps [of 9007199254740993] ulp.simps [of 4503599627370496])

lemma js_plus_one_at_2_53: "js_plus (js_number 9007199254740992) 1 = 9007199254740992"
  by (simp add: js_plus_def js_number_def ulp_above_2_53)

lemma find_where_clause_Some:
  "find (where_clause ctx sid) rows = Some r \<Longrightarrow> r \<in> set rows \<and> where_clause ctx sid r"
  by (induction rows) (auto split: if_splits)

lemma find_where_clause_None:
  "find (where_clause ctx sid) rows = None \<longleftrightarrow> (\<forall>r \<in> set rows. \<not> where_clause ctx sid r)"
  by (induction rows) auto

lemma primary_key_unique:
  "distinct (map shares_id rows) \<Longrightarrow> r \<in> set rows \<Longrightarrow> r' \<in> set rows \<Longrightarrow>
   shares_id r' = shares_id r \<Longrightarrow> r' = r"
  by (induction rows) (auto simp: image_iff)

lemma verify_no_row:
  assumes "\<not> knex_fails ctx SelectShare"
    and "\<forall>r \<in> set (directus_shares db). \<not> where_clause ctx (payload_share payload) r"
  shows "verify ctx db payload = Inl InvalidCredentialsException"
proof -
  from assms(2) have "find (where_clause ctx (payload_share payload)) (directus_shares db) = None"
    by (simp add: find_where_clause_None)
  with assms(1) show ?thesis by (simp add: verify_def select_record_def)
qed

lemma verify_Inr_row:
  assumes "verify ctx db payload = Inr data"
  shows "\<exists>r \<in> set (directus_shares db). where_clause ctx (payload_share payload) r
            \<and> data = select_columns r"
proof -
  from assms obtain r where "find (where_clause ctx (payload_share payload)) (directus_shares db) = Some r"
    and "data = select_columns r"
    by (auto simp: verify_def select_record_def split: if_splits option.splits sum.splits)
  then show ?thesis using find_where_clause_Some by blast
qed

lemma login_verify_Inl: "verify ctx db payload = Inl e \<Longrightarrow> login ctx db payload = (Inl e, db)"
  by (simp add: login_def)

lemma login_Inr_unfold:
  assumes "login ctx db payload = (Inr res, db')"
  shows "\<exists>data access.
           verify ctx db payload = Inr data
         \<and> \<not> knex_fails ctx UpdateShare
         \<and> jwt_sign ctx (tokenPayload data) (SECRET ctx)
               \<lparr> expiresIn = ACCESS_TOKEN_TTL ctx, issuer = ''directus'' \<rparr> = Inr access
         \<and> \<not> knex_fails ctx InsertSession
         \<and> \<not> knex_fails ctx DeleteSessions
         \<and> res = \<lparr> accessToken = access, refreshToken = nanoid ctx 64,
                     expires = ms ctx (ACCESS_TOKEN_TTL ctx) \<rparr>
         \<and> directus_shares db' = update_times_used data (directus_shares db)
         \<and> directus_sessions db' =
               delete_expired (new_Date ctx) (directus_sessions db @ [new_session ctx data])"
  using assms
  by (auto simp: login_def Let_def split: sum.splits if_splits)

lemma update_times_used_increments:
  assumes "distinct (map shares_id rows)" and "r \<in> set rows"
    and "- (2 ^ 53) \<le> shares_times_used r" and "shares_times_used r < 2 ^ 53"
  shows "update_times_used (select_columns r) rows =
           map (\<lambda>x. if shares_id x = shares_id r
                     then x\<lparr>shares_times_used := shares_times_used x + 1\<rparr> else x) rows"
proof -
  have "\<forall>x \<in> set rows. shares_id x = shares_id r \<longrightarrow> x = r"
    using assms(1,2) primary_key_unique by blast
  moreover have "js_plus (js_number (shares_times_used r)) 1 = shares_times_used r + 1"
    using assms(3,4) by (rule js_plus_one_safe)
  ultimately show ?thesis
    by (auto simp: update_times_used_def select_columns_def)
qed

lemma one_row_per_id:
  "distinct (map shares_id rows) \<Longrightarrow> r \<in> set rows \<Longrightarrow>
   length (filter (\<lambda>x. shares_id x = shares_id r) rows) = 1"
proof (induction rows)
  case Nil
  then show ?case by simp
next
  case (Cons a rows)
  show ?case
  proof (cases "shares_id a = shares_id r")
    case True
    with Cons.prems have "\<forall>x \<in> set rows. shares_id x \<noteq> shares_id r"
      by (auto simp: image_iff)
    then have "filter (\<lambda>x. shares_id x = shares_id r) rows = []"
      by (simp add: filter_empty_conv)
    with True show ?thesis by simp
  next
    case False
    with Cons.prems have "r \<in> set rows" and "distinct (map shares_id rows)" by auto
    with Cons.IH False show ?thesis by simp
  qed
qed

subsection \<open>The quota\<close>

text \<open>
  C1. The query admits a row with \<open>max_uses >= times_used\<close>, so a share that has been
  used \<open>max_uses\<close> times is admitted once more. Share \<open>s1\<close> allows one use and has none:
  the first login returns tokens and sets \<open>times_used\<close> to 1; the second login, a second
  later on the database the first one left, returns tokens too and sets it to 2.
\<close>

theorem login_accepted_again_at_max_uses:
  "login example_context example_db \<lparr> payload_share = ''s1'', payload_password = None \<rparr>
     = (Inr \<lparr> accessToken = ''jwt:s1'', refreshToken = replicate 64 (CHR ''r''), expires = 900000 \<rparr>,
        \<lparr> directus_shares = [share_s1\<lparr>shares_times_used := 1\<rparr>, share_s2, share_s3],
          directus_sessions =
            [session_live,
             \<lparr> sessions_token = replicate 64 (CHR ''r''), sessions_expires = 604801001,
               sessions_ip = Some ''203.0.113.7'', sessions_user_agent = Some ''curl/8'',
               sessions_share = Some ''s1'' \<rparr>] \<rparr>)
   \<and> shares_max_uses (share_s1\<lparr>shares_times_used := 1\<rparr>) = Some 1
   \<and> fst (login later_context
             \<lparr> directus_shares = [share_s1\<lparr>shares_times_used := 1\<rparr>, share_s2, share_s3],
               directus_sessions =
                 [session_live,
                  \<lparr> sessions_token = replicate 64 (CHR ''r''), sessions_expires = 604801001,
                    sessions_ip = Some ''203.0.113.7'', sessions_user_agent = Some ''curl/8'',
                    sessions_share = Some ''s1'' \<rparr>] \<rparr>
             \<lparr> payload_share = ''s1'', payload_password = None \<rparr>)
     = Inr \<lparr> accessToken = ''jwt:s1'', refreshToken = replicate 64 (CHR ''q''), expires = 900000 \<rparr>
   \<and> map shares_times_used
         (directus_shares
           (snd (login later_context
             \<lparr> directus_shares = [share_s1\<lparr>shares_times_used := 1\<rparr>, share_s2, share_s3],
               directus_sessions =
                 [session_live,
                  \<lparr> sessions_token = replicate 64 (CHR ''r''), sessions_expires = 604801001,
                    sessions_ip = Some ''203.0.113.7'', sessions_user_agent = Some ''curl/8'',
                    sessions_share = Some ''s1'' \<rparr>] \<rparr>
             \<lparr> payload_share = ''s1'', payload_password = None \<rparr>)))
     = [2, 0, 7]"
  by (simp add: login_defs example_defs)

subsection \<open>The password\<close>

text \<open>
  C2. Share \<open>s3\<close> has a stored password and is inside its window. A login that supplies no
  password hands \<^verbatim>\<open>argon2.verify\<close> an absent password; the library throws a \<^verbatim>\<open>TypeError\<close>,
  line 71 does not catch it, and that is what the caller gets, not
  \<open>InvalidCredentialsException\<close>.
\<close>

theorem login_without_password_throws_library_error:
  "shares_password share_s3 = Some ''$letmein''
   \<and> login example_context example_db \<lparr> payload_share = ''s3'', payload_password = None \<rparr>
     = (Inl (LibraryError ''TypeError''), example_db)"
  by (simp add: login_defs example_defs)

subsection \<open>The validity window on SQLite\<close>

text \<open>
  C3. On SQLite the comparison \<^verbatim>\<open>date_start <= CURRENT_TIMESTAMP\<close> of line 60 is true for
  every stored date, so a share is accepted before it starts: share \<open>s4\<close> starts at 5000,
  the clock stands at 1000, and the login returns tokens. Line 106 compares with a bound
  \<^verbatim>\<open>new Date()\<close> instead, which the database stores and compares like the column.
\<close>

theorem login_sqlite_accepts_before_date_start:
  "shares_date_start share_s4 = Some 5000
   \<and> knex_now sqlite_context = 1000
   \<and> fst (login sqlite_context sqlite_db \<lparr> payload_share = ''s4'', payload_password = None \<rparr>)
     = Inr \<lparr> accessToken = ''jwt:s4'', refreshToken = replicate 64 (CHR ''r''), expires = 900000 \<rparr>"
  by (simp add: login_defs example_defs)

text \<open>
  C8. On SQLite the comparison \<^verbatim>\<open>date_end >= CURRENT_TIMESTAMP\<close> of line 57 is false for
  every stored date, so a share with an end date is refused although it has not ended and
  has no password: share \<open>s5\<close> ends at 5000, the clock stands at 1000, and the login throws
  \<open>InvalidCredentialsException\<close>, with or without a password supplied.
\<close>

theorem login_sqlite_refuses_open_share_before_date_end:
  "shares_password share_s5 = None
   \<and> shares_date_end share_s5 = Some 5000
   \<and> knex_now sqlite_context = 1000
   \<and> login sqlite_context sqlite_db \<lparr> payload_share = ''s5'', payload_password = None \<rparr>
     = (Inl InvalidCredentialsException, sqlite_db)
   \<and> login sqlite_context sqlite_db \<lparr> payload_share = ''s5'', payload_password = Some [] \<rparr>
     = (Inl InvalidCredentialsException, sqlite_db)"
  by (simp add: login_defs example_defs)

subsection \<open>Failed verification\<close>

text \<open>
  C6. When verification fails (no row of that id passes the window and quota predicates,
  or the row found has a password that \<^verbatim>\<open>argon2.verify\<close> does not accept), \<open>login\<close> throws
  \<open>InvalidCredentialsException\<close> before any write: both tables, the \<open>times_used\<close>
  counters among them, are what they were.
\<close>

theorem login_failed_verification_changes_nothing:
  assumes "\<not> knex_fails ctx SelectShare"
    and "(\<forall>r \<in> set (directus_shares db).
            \<not> where_clause ctx (payload_share payload) r)
         \<or> (\<exists>r h. find (where_clause ctx (payload_share payload)) (directus_shares db)
                     = Some r
                  \<and> shares_password r = Some h \<and> h \<noteq> []
                  \<and> argon2_verify ctx h (payload_password payload) = Inr False)"
  shows "login ctx db payload = (Inl InvalidCredentialsException, db)"
proof -
  from assms(2) have "verify ctx db payload = Inl InvalidCredentialsException"
  proof
    assume "\<forall>r \<in> set (directus_shares db).
              \<not> where_clause ctx (payload_share payload) r"
    with assms(1) show ?thesis by (rule verify_no_row)
  next
    assume "\<exists>r h. find (where_clause ctx (payload_share payload)) (directus_shares db)
                     = Some r
                  \<and> shares_password r = Some h \<and> h \<noteq> []
                  \<and> argon2_verify ctx h (payload_password payload) = Inr False"
    with assms(1) show ?thesis
      by (auto simp: verify_def select_record_def select_columns_def)
  qed
  then show ?thesis by (rule login_verify_Inl)
qed

theorem login_failed_verification_changes_nothing_witness:
  "login example_context example_db \<lparr> payload_share = ''nope'', payload_password = None \<rparr>
     = (Inl InvalidCredentialsException, example_db)
   \<and> login example_context example_db \<lparr> payload_share = ''s3'', payload_password = Some ''guess'' \<rparr>
     = (Inl InvalidCredentialsException, example_db)"
  using login_failed_verification_changes_nothing
          [of example_context example_db "\<lparr> payload_share = ''nope'', payload_password = None \<rparr>"]
        login_failed_verification_changes_nothing
          [of example_context example_db "\<lparr> payload_share = ''s3'', payload_password = Some ''guess'' \<rparr>"]
  by (simp add: where_clause_def date_end_ok_def date_start_ok_def max_uses_ok_def example_defs)

subsection \<open>After verification\<close>

text \<open>
  C5. Once verification has succeeded, if the update of \<open>times_used\<close>, the signing of the
  access token, the insert of the session or the deletion of expired sessions throws,
  \<open>login\<close> throws: the caller gets an exception and no tokens. In particular no token is
  returned when the insert of the session was rejected.
\<close>

theorem login_returns_no_tokens_when_later_step_fails:
  assumes "verify ctx db payload = Inr data"
    and "knex_fails ctx UpdateShare
         \<or> (\<exists>e. jwt_sign ctx (tokenPayload data) (SECRET ctx)
                    \<lparr> expiresIn = ACCESS_TOKEN_TTL ctx, issuer = ''directus'' \<rparr> = Inl e)
         \<or> knex_fails ctx InsertSession
         \<or> knex_fails ctx DeleteSessions"
  shows "(\<exists>e. fst (login ctx db payload) = Inl e) \<and> (\<forall>res. fst (login ctx db payload) \<noteq> Inr res)"
  using assms
  by (auto simp: login_def Let_def split: sum.splits)

theorem login_returns_no_tokens_when_later_step_fails_witness:
  "verify failing_context example_db \<lparr> payload_share = ''s1'', payload_password = None \<rparr>
     = Inr (select_columns share_s1)
   \<and> knex_fails failing_context InsertSession
   \<and> (\<exists>e. fst (login failing_context example_db \<lparr> payload_share = ''s1'', payload_password = None \<rparr>)
          = Inl e)"
  using login_returns_no_tokens_when_later_step_fails
          [of failing_context example_db "\<lparr> payload_share = ''s1'', payload_password = None \<rparr>"
              "select_columns share_s1"]
  by (simp add: verify_def select_record_def where_clause_def date_end_ok_def date_start_ok_def
        max_uses_ok_def select_columns_def example_defs)

text \<open>
  C7, as amended. Take a login that returns tokens for a share whose counter lies from
  \<open>-2^53\<close> to below \<open>2^53\<close>. It has set \<open>times_used\<close> of the verified share to the value
  the select read plus one, which with the primary key is an increment by one of exactly
  one row, and has inserted exactly one session: its token is the refresh token returned,
  it expires at \<^verbatim>\<open>Date.now()\<close> plus the refresh TTL, it carries the caller's \<open>ip\<close> and
  \<open>userAgent\<close> and the id of the share. The table the call leaves is the old one with
  that row appended, swept of the rows that expired before \<^verbatim>\<open>new Date()\<close>.
\<close>

theorem login_success_increments_and_records_session:
  assumes "login ctx db payload = (Inr res, db')"
    and "distinct (map shares_id (directus_shares db))"
    and "\<forall>r \<in> set (directus_shares db). shares_id r = payload_share payload \<longrightarrow>
           - (2 ^ 53) \<le> shares_times_used r \<and> shares_times_used r < 2 ^ 53"
  shows "\<exists>data. verify ctx db payload = Inr data
       \<and> share_id data = payload_share payload
       \<and> directus_shares db' =
           map (\<lambda>x. if shares_id x = share_id data
                     then x\<lparr>shares_times_used := share_times_used data + 1\<rparr> else x)
               (directus_shares db)
       \<and> directus_shares db' =
           map (\<lambda>x. if shares_id x = payload_share payload
                     then x\<lparr>shares_times_used := shares_times_used x + 1\<rparr> else x)
               (directus_shares db)
       \<and> length (filter (\<lambda>x. shares_id x = payload_share payload) (directus_shares db)) = 1
       \<and> directus_sessions db' =
           delete_expired (new_Date ctx)
             (directus_sessions db @
              [\<lparr> sessions_token = refreshToken res,
                 sessions_expires = Date_now ctx + ms ctx (REFRESH_TOKEN_TTL ctx),
                 sessions_ip = (case accountability ctx of None \<Rightarrow> None | Some a \<Rightarrow> ip a),
                 sessions_user_agent =
                   (case accountability ctx of None \<Rightarrow> None | Some a \<Rightarrow> userAgent a),
                 sessions_share = Some (share_id data) \<rparr>])"
proof -
  from login_Inr_unfold [OF assms(1)] obtain data where
    v: "verify ctx db payload = Inr data"
    and res: "refreshToken res = nanoid ctx 64"
    and sh: "directus_shares db' = update_times_used data (directus_shares db)"
    and se: "directus_sessions db' =
               delete_expired (new_Date ctx) (directus_sessions db @ [new_session ctx data])"
    by auto
  from verify_Inr_row [OF v] obtain r where
    r: "r \<in> set (directus_shares db)" "shares_id r = payload_share payload"
       "data = select_columns r"
    by (auto simp: where_clause_def)
  from r(1,2) assms(3) have bound:
    "- (2 ^ 53) \<le> shares_times_used r" "shares_times_used r < 2 ^ 53"
    by blast+
  from r(1,3) have id': "share_id data = shares_id r"
    by (simp add: select_columns_def)
  with r(2) have id: "share_id data = payload_share payload"
    by simp
  from r(3) have "share_times_used data = js_number (shares_times_used r)"
    by (simp add: select_columns_def)
  with bound have tu: "share_times_used data = shares_times_used r"
    by (simp add: js_number_safe)
  have "js_plus (js_number (shares_times_used r)) 1 = shares_times_used r + 1"
    using bound by (rule js_plus_one_safe)
  with bound tu have jp: "js_plus (share_times_used data) 1 = share_times_used data + 1"
    by (simp add: js_number_safe)
  have "update_times_used (select_columns r) (directus_shares db) =
           map (\<lambda>x. if shares_id x = shares_id r
                     then x\<lparr>shares_times_used := shares_times_used x + 1\<rparr> else x)
               (directus_shares db)"
    using assms(2) r(1) bound by (rule update_times_used_increments)
  then have inc: "directus_shares db' =
           map (\<lambda>x. if shares_id x = payload_share payload
                     then x\<lparr>shares_times_used := shares_times_used x + 1\<rparr> else x)
               (directus_shares db)"
    by (simp only: sh r(3) r(2))
  have "directus_shares db' =
           map (\<lambda>x. if shares_id x = share_id data
                     then x\<lparr>shares_times_used := share_times_used data + 1\<rparr> else x)
               (directus_shares db)"
    by (simp only: sh update_times_used_def jp)
  moreover note inc
  moreover from r assms(2)
  have "length (filter (\<lambda>x. shares_id x = payload_share payload) (directus_shares db)) = 1"
    using one_row_per_id [of "directus_shares db" r] by simp
  moreover from se res have "directus_sessions db' =
           delete_expired (new_Date ctx)
             (directus_sessions db @
              [\<lparr> sessions_token = refreshToken res,
                 sessions_expires = Date_now ctx + ms ctx (REFRESH_TOKEN_TTL ctx),
                 sessions_ip = (case accountability ctx of None \<Rightarrow> None | Some a \<Rightarrow> ip a),
                 sessions_user_agent =
                   (case accountability ctx of None \<Rightarrow> None | Some a \<Rightarrow> userAgent a),
                 sessions_share = Some (share_id data) \<rparr>])"
    by (simp add: new_session_def refreshTokenExpiration_def)
  ultimately show ?thesis using v id by blast
qed


theorem login_success_increments_and_records_session_witness:
  "login example_context example_db \<lparr> payload_share = ''s3'', payload_password = Some ''letmein'' \<rparr>
     = (Inr \<lparr> accessToken = ''jwt:s3'', refreshToken = replicate 64 (CHR ''r''), expires = 900000 \<rparr>,
        \<lparr> directus_shares = [share_s1, share_s2, share_s3\<lparr>shares_times_used := 8\<rparr>],
          directus_sessions =
            [session_live,
             \<lparr> sessions_token = replicate 64 (CHR ''r''), sessions_expires = 604801001,
               sessions_ip = Some ''203.0.113.7'', sessions_user_agent = Some ''curl/8'',
               sessions_share = Some ''s3'' \<rparr>] \<rparr>)
   \<and> distinct (map shares_id (directus_shares example_db))
   \<and> shares_times_used share_s3 = 7"
proof -
  have l: "login example_context example_db
             \<lparr> payload_share = ''s3'', payload_password = Some ''letmein'' \<rparr>
     = (Inr \<lparr> accessToken = ''jwt:s3'', refreshToken = replicate 64 (CHR ''r''), expires = 900000 \<rparr>,
        \<lparr> directus_shares = [share_s1, share_s2, share_s3\<lparr>shares_times_used := 8\<rparr>],
          directus_sessions =
            [session_live,
             \<lparr> sessions_token = replicate 64 (CHR ''r''), sessions_expires = 604801001,
               sessions_ip = Some ''203.0.113.7'', sessions_user_agent = Some ''curl/8'',
               sessions_share = Some ''s3'' \<rparr>] \<rparr>)"
    by (simp add: login_defs example_defs)
  have d: "distinct (map shares_id (directus_shares example_db))"
    by (simp add: example_defs)
  have b: "\<forall>r \<in> set (directus_shares example_db).
             shares_id r = payload_share \<lparr> payload_share = ''s3'', payload_password = Some ''letmein'' \<rparr>
             \<longrightarrow> - (2 ^ 53) \<le> shares_times_used r \<and> shares_times_used r < 2 ^ 53"
    by (simp add: example_defs)
  from login_success_increments_and_records_session [OF l d b] l d
  show ?thesis by (simp add: share_s3_def)
qed

text \<open>
  C7 as stated has no bound on the counter. \<^verbatim>\<open>record.share_times_used + 1\<close> is an addition
  of doubles: at \<open>2^53\<close> the sum rounds back to \<open>2^53\<close>, and a login that returns tokens
  writes the counter back as it was.
\<close>

theorem login_times_used_stuck_at_2_53:
  "shares_times_used share_s6 = 9007199254740992
   \<and> login example_context worn_db \<lparr> payload_share = ''s6'', payload_password = None \<rparr>
     = (Inr \<lparr> accessToken = ''jwt:s6'', refreshToken = replicate 64 (CHR ''r''), expires = 900000 \<rparr>,
        \<lparr> directus_shares = [share_s6],
          directus_sessions =
            [\<lparr> sessions_token = replicate 64 (CHR ''r''), sessions_expires = 604801001,
               sessions_ip = Some ''203.0.113.7'', sessions_user_agent = Some ''curl/8'',
               sessions_share = Some ''s6'' \<rparr>] \<rparr>)"
  by (simp add: login_def verify_def select_record_def where_clause_def date_end_ok_def
        date_start_ok_def max_uses_ok_def select_columns_def update_times_used_def
        tokenPayload_def new_session_def refreshTokenExpiration_def delete_expired_def
        js_plus_one_at_2_53 example_defs)

text \<open>
  C10. A login that returns tokens leaves \<^verbatim>\<open>directus_shares\<close> with the same rows in the
  same order; each row differs from the old one at most in \<open>times_used\<close>, and a row of
  another id does not differ at all. With the primary key, one row has the requested id.
\<close>

theorem login_writes_only_times_used:
  assumes "login ctx db payload = (Inr res, db')"
  shows "length (directus_shares db') = length (directus_shares db)
       \<and> (\<forall>i < length (directus_shares db).
            directus_shares db' ! i =
              (directus_shares db ! i)
                \<lparr>shares_times_used := shares_times_used (directus_shares db' ! i)\<rparr>
            \<and> (shares_id (directus_shares db ! i) \<noteq> payload_share payload
                 \<longrightarrow> directus_shares db' ! i = directus_shares db ! i))
       \<and> (distinct (map shares_id (directus_shares db)) \<longrightarrow>
            length (filter (\<lambda>x. shares_id x = payload_share payload) (directus_shares db)) = 1)"
proof -
  from login_Inr_unfold [OF assms] obtain data where
    v: "verify ctx db payload = Inr data"
    and sh: "directus_shares db' = update_times_used data (directus_shares db)"
    by auto
  from verify_Inr_row [OF v] obtain r where
    r: "r \<in> set (directus_shares db)" "shares_id r = payload_share payload"
       "data = select_columns r"
    by (auto simp: where_clause_def)
  then have id: "share_id data = payload_share payload"
    by (simp add: select_columns_def)
  from sh have "length (directus_shares db') = length (directus_shares db)"
    by (simp add: update_times_used_def)
  moreover from sh id have "\<forall>i < length (directus_shares db).
            directus_shares db' ! i =
              (directus_shares db ! i)
                \<lparr>shares_times_used := shares_times_used (directus_shares db' ! i)\<rparr>
            \<and> (shares_id (directus_shares db ! i) \<noteq> payload_share payload
                 \<longrightarrow> directus_shares db' ! i = directus_shares db ! i)"
    by (simp add: update_times_used_def)
  moreover from r have "distinct (map shares_id (directus_shares db)) \<longrightarrow>
            length (filter (\<lambda>x. shares_id x = payload_share payload) (directus_shares db)) = 1"
    using one_row_per_id [of "directus_shares db" r] by simp
  ultimately show ?thesis by blast
qed

theorem login_writes_only_times_used_witness:
  "fst (login example_context example_db \<lparr> payload_share = ''s3'', payload_password = Some ''letmein'' \<rparr>)
     = Inr \<lparr> accessToken = ''jwt:s3'', refreshToken = replicate 64 (CHR ''r''), expires = 900000 \<rparr>
   \<and> directus_shares
        (snd (login example_context example_db
                \<lparr> payload_share = ''s3'', payload_password = Some ''letmein'' \<rparr>))
     = [share_s1, share_s2, share_s3\<lparr>shares_times_used := 8\<rparr>]"
  using login_writes_only_times_used
          [of example_context example_db
              "\<lparr> payload_share = ''s3'', payload_password = Some ''letmein'' \<rparr>"
              "\<lparr> accessToken = ''jwt:s3'', refreshToken = replicate 64 (CHR ''r''), expires = 900000 \<rparr>"
              "snd (login example_context example_db
                      \<lparr> payload_share = ''s3'', payload_password = Some ''letmein'' \<rparr>)"]
  by (simp add: login_defs example_defs)

subsection \<open>The sweep of expired sessions\<close>

text \<open>
  C4, as amended. A login that returns tokens leaves no session that expired strictly
  before \<^verbatim>\<open>new Date()\<close>, whatever share it belongs to, and keeps every session that had
  not.
\<close>

theorem login_sweeps_expired_sessions_on_success:
  assumes "login ctx db payload = (Inr res, db')"
  shows "(\<forall>s \<in> set (directus_sessions db'). \<not> sessions_expires s < new_Date ctx)
       \<and> (\<forall>s \<in> set (directus_sessions db).
             \<not> sessions_expires s < new_Date ctx \<longrightarrow> s \<in> set (directus_sessions db'))"
proof -
  from login_Inr_unfold [OF assms] obtain data where
    "directus_sessions db' =
       delete_expired (new_Date ctx) (directus_sessions db @ [new_session ctx data])"
    by blast
  then have "set (directus_sessions db') =
      {s \<in> set (directus_sessions db) \<union> {new_session ctx data}.
         \<not> sessions_expires s < new_Date ctx}"
    by (auto simp: delete_expired_def)
  then show ?thesis by simp
qed

theorem login_sweeps_expired_sessions_on_success_witness:
  "fst (login example_context example_db \<lparr> payload_share = ''s1'', payload_password = None \<rparr>)
     = Inr \<lparr> accessToken = ''jwt:s1'', refreshToken = replicate 64 (CHR ''r''), expires = 900000 \<rparr>
   \<and> session_old \<notin> set (directus_sessions
         (snd (login example_context example_db \<lparr> payload_share = ''s1'', payload_password = None \<rparr>)))
   \<and> session_live \<in> set (directus_sessions
         (snd (login example_context example_db \<lparr> payload_share = ''s1'', payload_password = None \<rparr>)))"
  using login_sweeps_expired_sessions_on_success
          [of example_context example_db "\<lparr> payload_share = ''s1'', payload_password = None \<rparr>"
              "\<lparr> accessToken = ''jwt:s1'', refreshToken = replicate 64 (CHR ''r''), expires = 900000 \<rparr>"
              "snd (login example_context example_db \<lparr> payload_share = ''s1'', payload_password = None \<rparr>)"]
  by (simp add: login_defs example_defs)

text \<open>
  C4 as stated includes the attempts that fail verification. Those throw on line 68 or 72,
  before the delete of line 106: after a login with an unknown id the expired session is
  still there.
\<close>

theorem failed_login_keeps_expired_session:
  "fst (login example_context example_db \<lparr> payload_share = ''nope'', payload_password = None \<rparr>)
     = Inl InvalidCredentialsException
   \<and> sessions_expires session_old < new_Date example_context
   \<and> session_old \<in> set (directus_sessions
         (snd (login example_context example_db \<lparr> payload_share = ''nope'', payload_password = None \<rparr>)))"
  by (simp add: login_defs example_defs)

section \<open>Properties of invite\<close>

text \<open>
  C9. Called without accountability, or with an accountability that has no user, \<open>invite\<close>
  throws \<open>ForbiddenException\<close> and no mail has been sent.
\<close>

theorem invite_anonymous_forbidden:
  assumes "invite_accountability ctx = None
           \<or> (\<exists>a. invite_accountability ctx = Some a \<and> user a = None)"
  shows "invite ctx sent payload = (Inl ForbiddenException, sent)"
  using assms by (auto simp: invite_def accountability_user_def)

theorem invite_anonymous_forbidden_witness:
  "invite example_invite_context [] \<lparr> emails = [''a@example.org'', ''b@example.org''], invite_share = ''s1'' \<rparr>
     = (Inl ForbiddenException, [])
   \<and> invite (example_invite_context \<lparr> invite_accountability := None \<rparr>) []
        \<lparr> emails = [''a@example.org''], invite_share = ''s1'' \<rparr>
     = (Inl ForbiddenException, [])"
  using invite_anonymous_forbidden
          [of example_invite_context "[]"
              "\<lparr> emails = [''a@example.org'', ''b@example.org''], invite_share = ''s1'' \<rparr>"]
        invite_anonymous_forbidden
          [of "example_invite_context \<lparr> invite_accountability := None \<rparr>" "[]"
              "\<lparr> emails = [''a@example.org''], invite_share = ''s1'' \<rparr>"]
  by (simp add: example_invite_context_def)

end
